theory Spec2Isabelle
  imports Main
begin

section \<open>The mediator state machine of raiden/transfer/mediated\_transfer/mediator.py\<close>

text \<open>
  The module is Python that mutates one \<open>MediatorState\<close> object in place and wraps every
  result in an \<open>Iteration(state, events)\<close>. Here each function takes the state and returns
  the updated one; every exception the Python can raise is a value \<open>Inl e\<close> of a sum type.
  Python's unbounded integers are \<open>int\<close>; addresses, hashes and secrets are byte strings.
\<close>

subsection \<open>Data model\<close>

datatype error = AssertionError | AttributeError | IndexError | UnboundLocalError | TypeError

text \<open>
  Modelled from the spec: the class \<open>LockedTransferState\<close> (raiden.transfer.mediated\_transfer.state
  is not among the sources). Its seven fields are the seven constructor arguments of the call in
  \<open>next_transfer_pair\<close>. The handlers of mediator.py also read and write an attribute
  \<open>state\<close> on transfer objects (\<open>pair.payee_transfer.state\<close>), which is a location of its
  own and not the pair's \<open>payee_state\<close>; it is the field \<open>state\<close>, \<open>None\<close> when the object
  has no such attribute, so that reading it raises AttributeError.
\<close>

record LockedTransferState =
  "identifier" :: int
  amount :: int
  token :: string
  target :: string
  expiration :: int
  hashlock :: string
  secret :: "string option"
  state :: "string option"

text \<open>Modelled from the spec: the class \<open>RouteState\<close>, with the fields the module reads.\<close>

record RouteState =
  node_address :: string
  channel_address :: string
  available_balance :: int
  settle_timeout :: int
  reveal_timeout :: int
  close_block :: "int option"

record RoutesState =
  available_routes :: "RouteState list"
  ignored_routes :: "RouteState list"
  refund_routes :: "RouteState list"

text \<open>
  Modelled from the spec: the class \<open>MediationPairState\<close>; its constructor takes the two routes
  and the two transfers and starts both sides in their pending sub-state. The sub-states are
  the string sentinels of the source.
\<close>

record MediationPairState =
  payer_route :: RouteState
  payer_transfer :: LockedTransferState
  payee_route :: RouteState
  payee_transfer :: LockedTransferState
  payer_state :: string
  payee_state :: string

definition new_MediationPairState ::
  "RouteState \<Rightarrow> LockedTransferState \<Rightarrow> RouteState \<Rightarrow> LockedTransferState \<Rightarrow> MediationPairState" where
  "new_MediationPairState pr pt er et =
     \<lparr>payer_route = pr, payer_transfer = pt, payee_route = er, payee_transfer = et,
      payer_state = ''payer_pending'', payee_state = ''payee_pending''\<rparr>"

text \<open>
  Modelled from the spec: the tuple \<open>MediationPairState.valid_payee_states\<close>, the payee side
  of the sub-state alphabet.
\<close>

definition valid_payee_states :: "string list" where
  "valid_payee_states =
     [''payee_pending'', ''payee_secret_revealed'', ''payee_contract_withdraw'',
      ''payee_balance_proof'', ''payee_expired'']"

text \<open>
  Modelled from the spec: the class \<open>MediatorState\<close>; its constructor takes the address, the
  routes, the block number and the hashlock, and starts with no secret and no pair. The
  fields \<open>secret\<close> and \<open>hashlock\<close> of the state are \<open>m_secret\<close> and \<open>m_hashlock\<close> here.
\<close>

record MediatorState =
  our_address :: string
  routes :: RoutesState
  block_number :: int
  m_hashlock :: string
  m_secret :: "string option"
  transfers_pair :: "MediationPairState list"

definition new_MediatorState :: "string \<Rightarrow> RoutesState \<Rightarrow> int \<Rightarrow> string \<Rightarrow> MediatorState" where
  "new_MediatorState addr rs b h =
     \<lparr>our_address = addr, routes = rs, block_number = b, m_hashlock = h,
      m_secret = None, transfers_pair = []\<rparr>"

text \<open>
  Modelled from the spec: the event classes of the events module (section 6 of the spec),
  with the argument order of the constructor calls in mediator.py.
\<close>

datatype event =
    SendMediatedTransfer LockedTransferState string
  | SendRefundTransfer int string int string int string
  | SendRevealSecret int "string option" string string
  | SendBalanceProof int string
  | ContractSendWithdraw LockedTransferState string

text \<open>
  Modelled from the spec: the helper \<open>mediatedtransfer(transfer, receiver)\<close> of the events
  module builds the event \<open>SendMediatedTransfer {transfer, recipient}\<close>.
\<close>

definition mediatedtransfer :: "LockedTransferState \<Rightarrow> string \<Rightarrow> event" where
  "mediatedtransfer t receiver = SendMediatedTransfer t receiver"

text \<open>
  Modelled from the spec: the state change classes (section 6 of the spec gives their
  fields); mediator.py reads \<open>block_number\<close>, \<open>sender\<close>, \<open>transfer\<close>, \<open>secret\<close>,
  \<open>channel_address\<close>, \<open>node_address\<close> and the fields of the init.
\<close>

datatype state_change =
    ActionInitMediator string RoutesState int RouteState LockedTransferState
      \<comment> \<open>our\_address, routes, block\_number, from\_route, from\_transfer\<close>
  | Block int
  | ActionRouteChange RouteState
  | ReceiveTransferRefund string LockedTransferState
      \<comment> \<open>sender, transfer\<close>
  | ReceiveSecretReveal string string
      \<comment> \<open>secret, sender\<close>
  | ReceiveBalanceProof string
  | ContractReceiveWithdraw string string string
      \<comment> \<open>channel\_address, secret, sender\<close>

text \<open>
  Modelled from the spec: the envelope \<open>Iteration(new_state, events)\<close> of
  raiden.transfer.architecture.
\<close>

record Iteration =
  new_state :: "MediatorState option"
  events :: "event list"

definition mk_Iteration :: "MediatorState option \<Rightarrow> event list \<Rightarrow> Iteration" where
  "mk_Iteration s evs = \<lparr>new_state = s, events = evs\<rparr>"

subsection \<open>Constants and predicates\<close>

definition TRANSIT_BLOCKS :: int where
  "TRANSIT_BLOCKS = 2"

definition STATE_SECRET_KNOWN :: "string list" where
  "STATE_SECRET_KNOWN =
     [''payee_secret_revealed'', ''payee_contract_withdraw'', ''payee_balance_proof'',
      ''payer_secret_revealed'', ''payer_contract_withdraw'', ''payer_balance_proof'']"

definition STATE_TRANSFER_PAYED :: "string list" where
  "STATE_TRANSFER_PAYED =
     [''payee_contract_withdraw'', ''payee_balance_proof'',
      ''payer_contract_withdraw'', ''payer_balance_proof'']"

definition STATE_TRANSFER_FINAL :: "string list" where
  "STATE_TRANSFER_FINAL =
     [''payee_contract_withdraw'', ''payee_balance_proof'', ''payee_expired'',
      ''payer_contract_withdraw'', ''payer_balance_proof'', ''payer_expired'']"

definition is_lock_valid :: "int \<Rightarrow> LockedTransferState \<Rightarrow> bool" where
  "is_lock_valid b transfer = (b \<le> expiration transfer)"

definition is_safe_to_wait :: "int \<Rightarrow> LockedTransferState \<Rightarrow> int \<Rightarrow> bool" where
  "is_safe_to_wait b transfer rt = (b < expiration transfer - rt)"

definition is_valid_refund :: "LockedTransferState \<Rightarrow> string \<Rightarrow> LockedTransferState \<Rightarrow> bool" where
  "is_valid_refund original_transfer refund_sender refund_transfer =
     (if refund_sender = target original_transfer then False
      else (identifier original_transfer = identifier refund_transfer \<and>
            amount original_transfer = amount refund_transfer \<and>
            hashlock original_transfer = hashlock refund_transfer \<and>
            target original_transfer = target refund_transfer \<and>
            expiration original_transfer > expiration refund_transfer))"

text \<open>\<open>transfer.state in xs\<close>: the attribute is read first, and is missing when \<open>None\<close>.\<close>

definition transfer_state_in :: "LockedTransferState \<Rightarrow> string list \<Rightarrow> error + bool" where
  "transfer_state_in t xs =
     (case state t of None \<Rightarrow> Inl AttributeError | Some v \<Rightarrow> Inr (v \<in> set xs))"

definition is_pending :: "MediationPairState \<Rightarrow> bool" where
  "is_pending pair =
     (payee_state pair \<notin> set STATE_TRANSFER_FINAL \<or> payer_state pair \<notin> set STATE_TRANSFER_FINAL)"

definition get_pending_transfer_pairs :: "MediationPairState list \<Rightarrow> MediationPairState list" where
  "get_pending_transfer_pairs pairs = filter is_pending pairs"

definition get_timeout_blocks :: "RouteState \<Rightarrow> LockedTransferState \<Rightarrow> int \<Rightarrow> error + int" where
  "get_timeout_blocks pr pt b =
     (case (case close_block pr of
              None \<Rightarrow> Inr (settle_timeout pr)
            | Some cb \<Rightarrow>
                if b \<ge> cb then Inr (settle_timeout pr - (b - cb)) else Inl AssertionError) of
        Inl e \<Rightarrow> Inl e
      | Inr blocks_until_settlement \<Rightarrow>
          Inr (min blocks_until_settlement (expiration pt - b) - TRANSIT_BLOCKS))"

definition all_finalized :: "MediatorState \<Rightarrow> bool" where
  "all_finalized s =
     list_all (\<lambda>pair. payee_state pair \<in> set STATE_TRANSFER_FINAL \<and>
                      payer_state pair \<in> set STATE_TRANSFER_FINAL) (transfers_pair s)"

definition clear_if_finalized :: "Iteration \<Rightarrow> error + Iteration" where
  "clear_if_finalized iteration =
     (case new_state iteration of
        None \<Rightarrow> Inl AttributeError
      | Some s \<Rightarrow>
          if all_finalized s then Inr (mk_Iteration None (events iteration))
          else Inr iteration)"

subsection \<open>Route selection and pair construction\<close>

text \<open>
  \<open>next_route\<close> pops routes off \<open>available_routes\<close> until one has the balance and a positive
  lock timeout; the rejected ones are appended to \<open>ignored_routes\<close>. The routes object is
  mutated, so the updated one is returned with the route.
\<close>

function next_route :: "RoutesState \<Rightarrow> int \<Rightarrow> int \<Rightarrow> RouteState option \<times> RoutesState" where
  "next_route routes_state timeout_blocks transfer_amount =
     (case available_routes routes_state of
        [] \<Rightarrow> (None, routes_state)
      | route # rest \<Rightarrow>
          (let popped = routes_state\<lparr>available_routes := rest\<rparr>;
               lock_timeout = timeout_blocks - reveal_timeout route;
               enough_balance = (available_balance route \<ge> transfer_amount)
           in if enough_balance \<and> lock_timeout > 0 then (Some route, popped)
              else next_route (popped\<lparr>ignored_routes := ignored_routes popped @ [route]\<rparr>)
                     timeout_blocks transfer_amount))"
  by pat_completeness auto
termination
  by (relation "measure (\<lambda>(rs, t, a). length (available_routes rs))") auto

declare next_route.simps [simp del]

text \<open>
  The first argument is the value of the attribute \<open>state\<close> on a transfer that the
  constructor \<open>LockedTransferState\<close> has just built from its seven arguments (the class is not
  among the sources): \<open>None\<close> when the constructor sets no such attribute.
\<close>

definition next_transfer_pair ::
  "string option \<Rightarrow> RouteState \<Rightarrow> LockedTransferState \<Rightarrow> RoutesState \<Rightarrow> int \<Rightarrow> int \<Rightarrow>
     error + ((MediationPairState option \<times> event list) \<times> RoutesState)" where
  "next_transfer_pair st0 pr pt routes_state timeout_blocks b =
     (if \<not> timeout_blocks > 0 then Inl AssertionError
      else if \<not> timeout_blocks \<le> expiration pt - b then Inl AssertionError
      else
        (case next_route routes_state timeout_blocks (amount pt) of
           (None, routes_state') \<Rightarrow> Inr ((None, []), routes_state')
         | (Some er, routes_state') \<Rightarrow>
             if \<not> reveal_timeout er < timeout_blocks then Inl AssertionError
             else
               (let lock_timeout = timeout_blocks - reveal_timeout er;
                    lock_expiration = lock_timeout + b;
                    et = \<lparr>identifier = identifier pt, amount = amount pt, token = token pt,
                          target = target pt, expiration = lock_expiration,
                          hashlock = hashlock pt, secret = secret pt, state = st0\<rparr>;
                    transfer_pair = new_MediationPairState pr pt er et
                in Inr ((Some transfer_pair, [mediatedtransfer et (node_address pr)]),
                        routes_state'))))"

subsection \<open>Secret propagation\<close>

definition set_secret_pair :: "string \<Rightarrow> MediationPairState \<Rightarrow> MediationPairState" where
  "set_secret_pair sec pair =
     pair\<lparr>payer_transfer := (payer_transfer pair)\<lparr>secret := Some sec\<rparr>,
          payee_transfer := (payee_transfer pair)\<lparr>secret := Some sec\<rparr>\<rparr>"

definition set_secret :: "MediatorState \<Rightarrow> string \<Rightarrow> MediatorState" where
  "set_secret s sec =
     s\<lparr>m_secret := Some sec, transfers_pair := map (set_secret_pair sec) (transfers_pair s)\<rparr>"

text \<open>
  The loop of \<open>set_payee_state_and_check_reveal_order\<close> over the reversed pairs: the first
  pair (from the tail) whose payee route is the sender gets the new payee state and the loop
  stops; the flag records a pair passed on the way whose payee state is not in
  \<open>STATE_SECRET_KNOWN\<close>. The argument list is already reversed.
\<close>

fun set_payee_state_loop ::
  "MediationPairState list \<Rightarrow> string \<Rightarrow> string \<Rightarrow> bool \<Rightarrow> MediationPairState list \<times> bool" where
  "set_payee_state_loop [] payee_address new_payee_state wrong = ([], wrong)"
| "set_payee_state_loop (back # rest) payee_address new_payee_state wrong =
     (if node_address (payee_route back) = payee_address
      then (back\<lparr>payee_state := new_payee_state\<rparr> # rest, wrong)
      else (case set_payee_state_loop rest payee_address new_payee_state
                   (wrong \<or> payee_state back \<notin> set STATE_SECRET_KNOWN) of
              (rest', wrong') \<Rightarrow> (back # rest', wrong')))"

definition set_payee_state_and_check_reveal_order ::
  "MediationPairState list \<Rightarrow> string \<Rightarrow> string \<Rightarrow> error + (event list \<times> MediationPairState list)" where
  "set_payee_state_and_check_reveal_order pairs payee_address new_payee_state =
     (if new_payee_state \<notin> set valid_payee_states then Inl AssertionError
      else
        (case set_payee_state_loop (rev pairs) payee_address new_payee_state False of
           (rpairs, wrong_reveal_order) \<Rightarrow>
             if wrong_reveal_order then Inr ([], rev rpairs) else Inr ([], rev rpairs)))"

definition events_for_refund_transfer ::
  "RouteState \<Rightarrow> LockedTransferState \<Rightarrow> int \<Rightarrow> int \<Rightarrow> event list" where
  "events_for_refund_transfer refund_route refund_transfer timeout_blocks b =
     (let new_lock_timeout = timeout_blocks - reveal_timeout refund_route
      in if new_lock_timeout > 0
         then (let new_lock_expiration = new_lock_timeout + b
               in [SendRefundTransfer (identifier refund_transfer) (token refund_transfer)
                     (amount refund_transfer) (hashlock refund_transfer)
                     new_lock_expiration (node_address refund_route)])
         else [])"

text \<open>
  One turn of the loop of \<open>events_for_revealsecret\<close>: both attributes are read, then the payer
  transfer's attribute is written and the event built.
\<close>

definition revealsecret_pair ::
  "string \<Rightarrow> MediationPairState \<Rightarrow> error + (MediationPairState \<times> event list)" where
  "revealsecret_pair our pair =
     (case transfer_state_in (payee_transfer pair) STATE_SECRET_KNOWN of
        Inl e \<Rightarrow> Inl e
      | Inr payee_secret \<Rightarrow>
          (case transfer_state_in (payer_transfer pair) STATE_SECRET_KNOWN of
             Inl e \<Rightarrow> Inl e
           | Inr payer_secret \<Rightarrow>
               if payee_secret \<and> \<not> payer_secret
               then Inr (pair\<lparr>payer_transfer :=
                                (payer_transfer pair)\<lparr>state := Some ''payer_secret_revealed''\<rparr>\<rparr>,
                         [SendRevealSecret (identifier (payer_transfer pair))
                            (secret (payer_transfer pair))
                            (node_address (payer_route pair)) our])
               else Inr (pair, [])))"

text \<open>
  A loop over pairs whose body may raise: the pairs are visited in the order given, each is
  replaced by its updated value, the events are appended in visiting order, and the first
  exception ends the loop.
\<close>

fun for_pairs ::
  "(MediationPairState \<Rightarrow> error + (MediationPairState \<times> event list)) \<Rightarrow>
     MediationPairState list \<Rightarrow> error + (MediationPairState list \<times> event list)" where
  "for_pairs body [] = Inr ([], [])"
| "for_pairs body (pair # rest) =
     (case body pair of
        Inl e \<Rightarrow> Inl e
      | Inr (pair', evs) \<Rightarrow>
          (case for_pairs body rest of
             Inl e \<Rightarrow> Inl e
           | Inr (rest', evs') \<Rightarrow> Inr (pair' # rest', evs @ evs')))"

definition events_for_revealsecret :: "MediatorState \<Rightarrow> error + (event list \<times> MediatorState)" where
  "events_for_revealsecret s =
     (case for_pairs (revealsecret_pair (our_address s)) (rev (transfers_pair s)) of
        Inl e \<Rightarrow> Inl e
      | Inr (rpairs, evs) \<Rightarrow> Inr (evs, s\<lparr>transfers_pair := rev rpairs\<rparr>))"

definition balanceproof_pair ::
  "int \<Rightarrow> MediationPairState \<Rightarrow> error + (MediationPairState \<times> event list)" where
  "balanceproof_pair b pair =
     (case transfer_state_in (payee_transfer pair) STATE_SECRET_KNOWN of
        Inl e \<Rightarrow> Inl e
      | Inr payee_knows_secret \<Rightarrow>
          (case transfer_state_in (payee_transfer pair) STATE_TRANSFER_PAYED of
             Inl e \<Rightarrow> Inl e
           | Inr payee_payed \<Rightarrow>
               (let lock_valid = is_lock_valid b (payee_transfer pair)
                in if payee_knows_secret \<and> \<not> payee_payed \<and> lock_valid
                   then Inr (pair\<lparr>payee_transfer :=
                                    (payee_transfer pair)\<lparr>state := Some ''payee_balance_proof''\<rparr>\<rparr>,
                             [SendBalanceProof (identifier (payee_transfer pair))
                                (node_address (payee_route pair))])
                   else Inr (pair, []))))"

definition events_for_balanceproof :: "MediatorState \<Rightarrow> error + (event list \<times> MediatorState)" where
  "events_for_balanceproof s =
     (case for_pairs (balanceproof_pair (block_number s)) (rev (transfers_pair s)) of
        Inl e \<Rightarrow> Inl e
      | Inr (rpairs, evs) \<Rightarrow> Inr (evs, s\<lparr>transfers_pair := rev rpairs\<rparr>))"

definition secret_learned ::
  "MediatorState \<Rightarrow> string \<Rightarrow> string \<Rightarrow> string \<Rightarrow> error + Iteration" where
  "secret_learned s sec payee_address new_payee_state =
     (if new_payee_state \<notin> set STATE_SECRET_KNOWN then Inl AssertionError
      else
        (let s1 = (if m_secret s = None then set_secret s sec else s)
         in case set_payee_state_and_check_reveal_order (transfers_pair s1)
                   payee_address new_payee_state of
              Inl e \<Rightarrow> Inl e
            | Inr (wrong_order, pairs2) \<Rightarrow>
                (case events_for_revealsecret (s1\<lparr>transfers_pair := pairs2\<rparr>) of
                   Inl e \<Rightarrow> Inl e
                 | Inr (secret_reveal, s3) \<Rightarrow>
                     (case events_for_balanceproof s3 of
                        Inl e \<Rightarrow> Inl e
                      | Inr (balance_proof, s4) \<Rightarrow>
                          Inr (mk_Iteration (Some s4)
                                 (wrong_order @ secret_reveal @ balance_proof))))))"

subsection \<open>Mediation\<close>

definition mediate_transfer ::
  "string option \<Rightarrow> MediatorState \<Rightarrow> RouteState \<Rightarrow> LockedTransferState \<Rightarrow> error + Iteration" where
  "mediate_transfer st0 s pr pt =
     (case get_timeout_blocks pr pt (block_number s) of
        Inl e \<Rightarrow> Inl e
      | Inr timeout_blocks \<Rightarrow>
          (case (if timeout_blocks > 0
                 then next_transfer_pair st0 pr pt (routes s) timeout_blocks (block_number s)
                 else Inr ((None, []), routes s)) of
             Inl e \<Rightarrow> Inl e
           | Inr ((None, mediated_events), routes') \<Rightarrow>
               (let s1 = s\<lparr>routes := routes'\<rparr>;
                    (original_route, original_transfer) =
                       (case transfers_pair s1 of
                          [] \<Rightarrow> (pr, pt)
                        | first # _ \<Rightarrow> (payer_route first, payer_transfer first));
                    refund_events = events_for_refund_transfer original_route original_transfer
                                      timeout_blocks (block_number s1)
                in Inr (mk_Iteration (Some s1) refund_events))
           | Inr ((Some transfer_pair, mediated_events), routes') \<Rightarrow>
               (let s1 = s\<lparr>routes := routes'\<rparr>
                in Inr (mk_Iteration
                          (Some (s1\<lparr>transfers_pair := transfers_pair s1 @ [transfer_pair]\<rparr>))
                          mediated_events))))"

subsection \<open>Handlers\<close>

text \<open>
  One turn of the loop of \<open>handle_block\<close>, for a pending pair: the withdraw test reads the
  attribute \<open>state\<close> of the two transfers and the pair's \<open>payer_state\<close>; the expiration test
  follows, with its assertion.
\<close>

definition handle_block_pair ::
  "int \<Rightarrow> MediationPairState \<Rightarrow> error + (MediationPairState \<times> event list)" where
  "handle_block_pair b pair =
     (case transfer_state_in (payee_transfer pair) STATE_TRANSFER_PAYED of
        Inl e \<Rightarrow> Inl e
      | Inr payee_payed \<Rightarrow>
          (case transfer_state_in (payer_transfer pair) STATE_TRANSFER_PAYED of
             Inl e \<Rightarrow> Inl e
           | Inr payer_payed \<Rightarrow>
               (let witdrawing = (payer_state pair = ''payer_waiting_withdraw'');
                    (pair1, evs) =
                       (if payee_payed \<and> \<not> payer_payed \<and> \<not> witdrawing \<and>
                           \<not> is_safe_to_wait b (payer_transfer pair)
                                (reveal_timeout (payer_route pair))
                        then (pair\<lparr>payer_state := ''payer_waiting_withdraw''\<rparr>,
                              [ContractSendWithdraw (payer_transfer pair)
                                 (channel_address (payer_route pair))])
                        else (pair, []))
                in if expiration (payer_transfer pair1) > b
                   then (if payee_state pair1 \<in> set STATE_TRANSFER_PAYED then Inl AssertionError
                         else Inr (pair1\<lparr>payee_state := ''payee_expired'',
                                         payer_state := ''payer_expired''\<rparr>, evs))
                   else Inr (pair1, evs))))"

text \<open>
  The loop runs over the reversed list of the pending pairs, which are the objects of
  \<open>state.transfers_pair\<close> itself: a pair that is not pending is left as it is.
\<close>

definition handle_block :: "MediatorState \<Rightarrow> int \<Rightarrow> error + Iteration" where
  "handle_block s b =
     (let s1 = s\<lparr>block_number := b\<rparr>
      in case for_pairs (\<lambda>pair. if is_pending pair then handle_block_pair b pair
                                else Inr (pair, []))
                (rev (transfers_pair s1)) of
           Inl e \<Rightarrow> Inl e
         | Inr (rpairs, evs) \<Rightarrow>
             Inr (mk_Iteration (Some (s1\<lparr>transfers_pair := rev rpairs\<rparr>)) evs))"

definition handle_refundtransfer ::
  "string option \<Rightarrow> MediatorState \<Rightarrow> string \<Rightarrow> LockedTransferState \<Rightarrow> error + Iteration" where
  "handle_refundtransfer st0 s sender transfer =
     (if m_secret s \<noteq> None then Inl AssertionError
      else if transfers_pair s = [] then Inl IndexError
      else
        (let transfer_pair = last (transfers_pair s);
             et = payee_transfer transfer_pair
         in if is_valid_refund et sender transfer
            then (let pr = payee_route transfer_pair;
                      rs = routes s;
                      s1 = s\<lparr>routes := rs\<lparr>refund_routes := refund_routes rs @ [pr]\<rparr>\<rparr>
                  in mediate_transfer st0 s1 pr transfer)
            else Inr (mk_Iteration (Some s) [])))"

text \<open>
  The hash function \<open>sha3\<close> of raiden.utils is a parameter. Modelled from the spec:
  \<open>hash(secret)\<close> is defined on secrets; applied to \<open>None\<close> (in \<open>handle_contractwithdraw\<close>,
  when the state has no secret) the call raises TypeError.
\<close>

definition handle_secretreveal ::
  "(string \<Rightarrow> string) \<Rightarrow> MediatorState \<Rightarrow> string \<Rightarrow> string \<Rightarrow> error + Iteration" where
  "handle_secretreveal sha3 s sec sender =
     (if sha3 sec = m_hashlock s
      then secret_learned s sec sender ''payee_secret_revealed''
      else Inr (mk_Iteration (Some s) []))"

text \<open>
  The loop of \<open>handle_contractwithdraw\<close>: the first pair whose payer route is on the channel
  gets its payer state set and the loop breaks; \<open>None\<close> when no pair matches (the \<open>else\<close> of
  the \<open>for\<close>).
\<close>

fun contractwithdraw_loop ::
  "MediationPairState list \<Rightarrow> string \<Rightarrow> MediationPairState list option" where
  "contractwithdraw_loop [] ca = None"
| "contractwithdraw_loop (pair # rest) ca =
     (if channel_address (payer_route pair) = ca
      then Some (pair\<lparr>payer_state := ''payer_contract_withdraw''\<rparr> # rest)
      else (case contractwithdraw_loop rest ca of
              None \<Rightarrow> None
            | Some rest' \<Rightarrow> Some (pair # rest')))"

text \<open>
  After the \<open>break\<close> the function returns \<open>iteration\<close>, which only the \<open>else\<close> of the loop
  assigns: the return raises UnboundLocalError.
\<close>

definition handle_contractwithdraw ::
  "(string \<Rightarrow> string) \<Rightarrow> MediatorState \<Rightarrow> string \<Rightarrow> string \<Rightarrow> string \<Rightarrow> error + Iteration" where
  "handle_contractwithdraw sha3 s ca sec sender =
     (case m_secret s of
        None \<Rightarrow> Inl TypeError
      | Some known \<Rightarrow>
          if sha3 known \<noteq> m_hashlock s then Inl AssertionError
          else
            (case contractwithdraw_loop (transfers_pair s) ca of
               Some pairs' \<Rightarrow> Inl UnboundLocalError
             | None \<Rightarrow> secret_learned s sec sender ''payee_contract_withdraw''))"

definition handle_balanceproof :: "MediatorState \<Rightarrow> string \<Rightarrow> error + Iteration" where
  "handle_balanceproof s na =
     Inr (mk_Iteration
            (Some (s\<lparr>transfers_pair :=
                       map (\<lambda>pair. if channel_address (payer_route pair) = na
                                   then pair\<lparr>payer_state := ''payer_balance_proof''\<rparr>
                                   else pair)
                           (transfers_pair s)\<rparr>))
            [])"

text \<open>
  \<open>update_route\<close> of raiden.transfer.mediated\_transfer.transition is not among the sources:
  it is a parameter, a function that updates the state in place or raises.
\<close>

definition handle_routechange ::
  "(MediatorState \<Rightarrow> RouteState \<Rightarrow> error + MediatorState) \<Rightarrow> MediatorState \<Rightarrow> RouteState \<Rightarrow>
     error + Iteration" where
  "handle_routechange update_route s route_update =
     (case update_route s route_update of
        Inl e \<Rightarrow> Inl e
      | Inr s' \<Rightarrow> Inr (mk_Iteration (Some s') []))"

subsection \<open>The transition function\<close>

text \<open>
  \<open>dispatch\<close> is the body of \<open>state_transition\<close> up to its last line. \<open>None\<close> is the case
  in which no branch has assigned the local \<open>iteration\<close>; the last line then raises
  UnboundLocalError when it reads it. With a secret known, \<open>Block\<close> is tested by an \<open>if\<close> of
  its own, and the chain that follows leaves its result as it is.
\<close>

fun dispatch ::
  "(string \<Rightarrow> string) \<Rightarrow> (MediatorState \<Rightarrow> RouteState \<Rightarrow> error + MediatorState) \<Rightarrow>
     string option \<Rightarrow> MediatorState option \<Rightarrow> state_change \<Rightarrow> (error + Iteration) option" where
  "dispatch sha3 update_route st0 None (ActionInitMediator our rs b from_route from_transfer) =
     Some (mediate_transfer st0 (new_MediatorState our rs b (hashlock from_transfer))
             from_route from_transfer)"
| "dispatch sha3 update_route st0 None _ = None"
| "dispatch sha3 update_route st0 (Some s) sc =
     (if m_secret s = None then
        (case sc of
           Block b \<Rightarrow> Some (handle_block s b)
         | ActionRouteChange ru \<Rightarrow> Some (handle_routechange update_route s ru)
         | ReceiveTransferRefund sender transfer \<Rightarrow>
             Some (handle_refundtransfer st0 s sender transfer)
         | ReceiveSecretReveal sec sender \<Rightarrow> Some (handle_secretreveal sha3 s sec sender)
         | ContractReceiveWithdraw ca sec sender \<Rightarrow>
             Some (handle_contractwithdraw sha3 s ca sec sender)
         | _ \<Rightarrow> None)
      else
        (case sc of
           Block b \<Rightarrow> Some (handle_block s b)
         | ReceiveSecretReveal sec sender \<Rightarrow> Some (handle_secretreveal sha3 s sec sender)
         | ReceiveBalanceProof na \<Rightarrow> Some (handle_balanceproof s na)
         | ContractReceiveWithdraw ca sec sender \<Rightarrow>
             Some (handle_contractwithdraw sha3 s ca sec sender)
         | _ \<Rightarrow> None))"

definition state_transition ::
  "(string \<Rightarrow> string) \<Rightarrow> (MediatorState \<Rightarrow> RouteState \<Rightarrow> error + MediatorState) \<Rightarrow>
     string option \<Rightarrow> MediatorState option \<Rightarrow> state_change \<Rightarrow> error + Iteration" where
  "state_transition sha3 update_route st0 s sc =
     (case dispatch sha3 update_route st0 s sc of
        None \<Rightarrow> Inl UnboundLocalError
      | Some (Inl e) \<Rightarrow> Inl e
      | Some (Inr iteration) \<Rightarrow> clear_if_finalized iteration)"

subsection \<open>The values of the scenarios of section 8 of the spec\<close>

text \<open>
  Node N mediates between the payer A and the payee B; every route has
  \<open>reveal_timeout = 5\<close> and \<open>settle_timeout = 50\<close>, the transfer is of 10 tokens under the
  hashlock H. \<open>locked_transfer e st\<close> is that transfer with expiration \<open>e\<close> and attribute
  \<open>state\<close> \<open>st\<close>.
\<close>

definition route_A :: RouteState where
  "route_A = \<lparr>node_address = ''A'', channel_address = ''chA'', available_balance = 10,
              settle_timeout = 50, reveal_timeout = 5, close_block = None\<rparr>"

definition route_B :: RouteState where
  "route_B = \<lparr>node_address = ''B'', channel_address = ''chB'', available_balance = 10,
              settle_timeout = 50, reveal_timeout = 5, close_block = None\<rparr>"

definition locked_transfer :: "int \<Rightarrow> string option \<Rightarrow> LockedTransferState" where
  "locked_transfer e st =
     \<lparr>identifier = 1, amount = 10, token = ''tok'', target = ''T'', expiration = e,
      hashlock = ''H'', secret = None, state = st\<rparr>"

definition no_routes :: RoutesState where
  "no_routes = \<lparr>available_routes = [], ignored_routes = [], refund_routes = []\<rparr>"

definition pair_AB :: MediationPairState where
  "pair_AB = new_MediationPairState route_A (locked_transfer 100 None)
               route_B (locked_transfer 53 None)"

text \<open>The state after the init of scenario 1, at block 10.\<close>

definition state_AB :: MediatorState where
  "state_AB = (new_MediatorState ''N'' no_routes 10 ''H'')\<lparr>transfers_pair := [pair_AB]\<rparr>"

text \<open>The hash of the scenarios: the secret S hashes to the hashlock H.\<close>

definition scenario_sha3 :: "string \<Rightarrow> string" where
  "scenario_sha3 sec = (if sec = ''S'' then ''H'' else ''other'')"

text \<open>
  The pair of scenario 1 with transfer objects that carry the attribute \<open>state\<close>, and the
  state that holds it.
\<close>

definition pair_readable :: MediationPairState where
  "pair_readable = new_MediationPairState route_A (locked_transfer 100 (Some ''payer_pending''))
                     route_B (locked_transfer 53 (Some ''payee_pending''))"

definition state_readable :: MediatorState where
  "state_readable =
     (new_MediatorState ''N'' no_routes 10 ''H'')\<lparr>transfers_pair := [pair_readable]\<rparr>"

text \<open>
  Scenario 4: the secret is known and the payee B has been paid off-chain, the payer A is
  silent.
\<close>

definition pair_paid :: MediationPairState where
  "pair_paid = pair_readable\<lparr>payee_transfer := locked_transfer 53 (Some ''payee_balance_proof''),
                            payee_state := ''payee_balance_proof''\<rparr>"

definition state_paid :: MediatorState where
  "state_paid =
     (new_MediatorState ''N'' no_routes 10 ''H'')\<lparr>m_secret := Some ''S'',
                                                    transfers_pair := [pair_paid]\<rparr>"

subsection \<open>What the secret propagation emits, pair by pair\<close>

text \<open>
  The events of the two walks of \<open>secret_learned\<close> for one pair, as functions of the pair
  the handler is given: the reveal walk emits for a pair whose payee transfer is recorded as
  knowing the secret while its payer transfer is not, the balance-proof walk for a pair
  whose payee transfer is recorded as knowing the secret, not as paid, with a valid lock.
  The secret of the event is the one \<open>set_secret\<close> has just stored when the state had none.
\<close>

definition reveal_due :: "MediationPairState \<Rightarrow> bool" where
  "reveal_due pair =
     (case (state (payee_transfer pair), state (payer_transfer pair)) of
        (Some v, Some w) \<Rightarrow> v \<in> set STATE_SECRET_KNOWN \<and> w \<notin> set STATE_SECRET_KNOWN
      | _ \<Rightarrow> False)"

definition reveal_events :: "MediatorState \<Rightarrow> string \<Rightarrow> MediationPairState \<Rightarrow> event list" where
  "reveal_events s sec pair =
     (if reveal_due pair
      then [SendRevealSecret (identifier (payer_transfer pair))
              (if m_secret s = None then Some sec else secret (payer_transfer pair))
              (node_address (payer_route pair)) (our_address s)]
      else [])"

definition balanceproof_due :: "int \<Rightarrow> MediationPairState \<Rightarrow> bool" where
  "balanceproof_due b pair =
     (case state (payee_transfer pair) of
        Some v \<Rightarrow> v \<in> set STATE_SECRET_KNOWN \<and> v \<notin> set STATE_TRANSFER_PAYED \<and>
                  b \<le> expiration (payee_transfer pair)
      | None \<Rightarrow> False)"

definition balanceproof_events :: "int \<Rightarrow> MediationPairState \<Rightarrow> event list" where
  "balanceproof_events b pair =
     (if balanceproof_due b pair
      then [SendBalanceProof (identifier (payee_transfer pair)) (node_address (payee_route pair))]
      else [])"

text \<open>A pair whose payee transfer is recorded as having revealed the secret.\<close>

definition pair_known :: MediationPairState where
  "pair_known = pair_readable\<lparr>payee_transfer := locked_transfer 53 (Some ''payee_secret_revealed'')\<rparr>"

definition state_known :: MediatorState where
  "state_known =
     (new_MediatorState ''N'' no_routes 10 ''H'')\<lparr>transfers_pair := [pair_known]\<rparr>"

subsection \<open>The ordering of the pairs by expiration\<close>











section \<open>Properties\<close>

subsection \<open>Refund intake\<close>

text \<open>
  C6. \<open>is_valid_refund\<close> holds iff the sender is not the original target, the identifier,
  amount, hashlock and target agree, and the original expiration is strictly larger than the
  refund's. \<open>handle_refundtransfer\<close> returns a changed state or an event only when the refund
  is valid against the payee transfer of the last pair; a refund whose expiration equals the
  original's is rejected: the state comes back unchanged with no event.
\<close>

theorem handle_refundtransfer_only_valid:
  "(is_valid_refund original sender refund \<longleftrightarrow>
      sender \<noteq> target original \<and> identifier original = identifier refund \<and>
      amount original = amount refund \<and> hashlock original = hashlock refund \<and>
      target original = target refund \<and> expiration original > expiration refund) \<and>
   (handle_refundtransfer st0 s sender refund = Inr it \<and>
      (new_state it \<noteq> Some s \<or> events it \<noteq> []) \<longrightarrow>
        transfers_pair s \<noteq> [] \<and>
        is_valid_refund (payee_transfer (last (transfers_pair s))) sender refund) \<and>
   (m_secret s = None \<and> transfers_pair s \<noteq> [] \<and>
      expiration refund = expiration (payee_transfer (last (transfers_pair s))) \<longrightarrow>
        handle_refundtransfer st0 s sender refund = Inr (mk_Iteration (Some s) []))"
  by (auto simp: is_valid_refund_def handle_refundtransfer_def mk_Iteration_def Let_def
      split: if_splits)

theorem handle_refundtransfer_only_valid_witness:
  "handle_refundtransfer None state_AB ''B'' (locked_transfer 53 None) =
     Inr (mk_Iteration (Some state_AB) []) \<and>
   \<not> is_valid_refund (locked_transfer 53 None) ''B'' (locked_transfer 53 None) \<and>
   handle_refundtransfer None state_AB ''B'' (locked_transfer 52 None) =
     Inr (mk_Iteration (Some (state_AB\<lparr>routes := no_routes\<lparr>refund_routes := [route_B]\<rparr>\<rparr>))
            [SendRefundTransfer 1 ''tok'' 10 ''H'' 45 ''A'']) \<and>
   is_valid_refund (payee_transfer (last (transfers_pair state_AB))) ''B''
     (locked_transfer 52 None)"
proof -
  let ?it = "mk_Iteration (Some (state_AB\<lparr>routes := no_routes\<lparr>refund_routes := [route_B]\<rparr>\<rparr>))
               [SendRefundTransfer 1 ''tok'' 10 ''H'' 45 ''A'']"
  have r: "handle_refundtransfer None state_AB ''B'' (locked_transfer 52 None) = Inr ?it"
    by (simp add: handle_refundtransfer_def is_valid_refund_def mediate_transfer_def
        get_timeout_blocks_def TRANSIT_BLOCKS_def next_transfer_pair_def next_route.simps
        events_for_refund_transfer_def mk_Iteration_def Let_def
        state_AB_def pair_AB_def new_MediationPairState_def new_MediatorState_def
        locked_transfer_def route_A_def route_B_def no_routes_def)
  have "is_valid_refund (payee_transfer (last (transfers_pair state_AB))) ''B''
          (locked_transfer 52 None)"
    using handle_refundtransfer_only_valid [of "locked_transfer 53 None" "''B''"
        "locked_transfer 52 None" None state_AB ?it] r
    by (simp add: mk_Iteration_def)
  moreover have "handle_refundtransfer None state_AB ''B'' (locked_transfer 53 None) =
       Inr (mk_Iteration (Some state_AB) []) \<and>
     \<not> is_valid_refund (locked_transfer 53 None) ''B'' (locked_transfer 53 None)"
    using handle_refundtransfer_only_valid [of "locked_transfer 53 None" "''B''"
        "locked_transfer 53 None" None state_AB "mk_Iteration (Some state_AB) []"]
    by (simp add: state_AB_def pair_AB_def new_MediationPairState_def new_MediatorState_def
        locked_transfer_def)
  ultimately show ?thesis using r by simp
qed

subsection \<open>Evaluating the scenarios\<close>

lemmas scenario_defs =
  route_A_def route_B_def locked_transfer_def no_routes_def pair_AB_def state_AB_def
  scenario_sha3_def pair_readable_def state_readable_def pair_paid_def state_paid_def
  new_MediationPairState_def new_MediatorState_def

lemmas block_defs =
  handle_block_def handle_block_pair_def transfer_state_in_def is_pending_def
  STATE_TRANSFER_FINAL_def STATE_TRANSFER_PAYED_def is_safe_to_wait_def is_lock_valid_def
  mk_Iteration_def

subsection \<open>Block handler\<close>

text \<open>
  C1. The claim: the block handler marks a side expired only when the block is past the
  lock's expiration, and never marks a pair whose payer lock is still valid. The code tests
  \<open>payer_transfer.expiration > block_number\<close>: at block 50 the pending pair of scenario 1
  (payer lock valid until 100, payee lock until 53) gets both sides marked expired, and at
  block 101, when the payer lock has expired, nothing is marked.
\<close>

theorem handle_block_marks_valid_lock_expired:
  "handle_block state_readable 50 =
     Inr (mk_Iteration
            (Some (state_readable\<lparr>block_number := 50,
                     transfers_pair := [pair_readable\<lparr>payee_state := ''payee_expired'',
                                                      payer_state := ''payer_expired''\<rparr>]\<rparr>)) []) \<and>
   is_lock_valid 50 (payer_transfer pair_readable) \<and>
   is_lock_valid 50 (payee_transfer pair_readable) \<and>
   handle_block state_readable 101 =
     Inr (mk_Iteration (Some (state_readable\<lparr>block_number := 101\<rparr>)) []) \<and>
   \<not> is_lock_valid 101 (payer_transfer pair_readable)"
  by (simp add: block_defs scenario_defs)

text \<open>
  C5. The claim: when waiting is not safe, the payer side becomes
  \<open>payer_waiting_withdraw\<close> and a \<open>ContractSendWithdraw\<close> is emitted. In scenario 4 at block
  95 waiting is not safe (95 < 100 - 5 is false); the handler builds the event and sets the
  state, then its expiration test (100 > 95) asserts that the payee is not paid and raises.
  With a payee paid only according to the transfer's attribute, the same test overwrites
  \<open>payer_waiting_withdraw\<close> with \<open>payer_expired\<close>. Only from block 100 on does the withdraw
  state remain.
\<close>

theorem handle_block_withdraw_then_expired:
  "\<not> is_safe_to_wait 95 (payer_transfer pair_paid) (reveal_timeout (payer_route pair_paid)) \<and>
   handle_block state_paid 95 = Inl AssertionError \<and>
   handle_block (state_paid\<lparr>transfers_pair := [pair_paid\<lparr>payee_state := ''payee_pending''\<rparr>]\<rparr>) 95 =
     Inr (mk_Iteration
            (Some (state_paid\<lparr>block_number := 95,
                     transfers_pair := [pair_paid\<lparr>payee_state := ''payee_expired'',
                                                  payer_state := ''payer_expired''\<rparr>]\<rparr>))
            [ContractSendWithdraw (locked_transfer 100 (Some ''payer_pending'')) ''chA'']) \<and>
   handle_block state_paid 100 =
     Inr (mk_Iteration
            (Some (state_paid\<lparr>block_number := 100,
                     transfers_pair := [pair_paid\<lparr>payer_state := ''payer_waiting_withdraw''\<rparr>]\<rparr>))
            [ContractSendWithdraw (locked_transfer 100 (Some ''payer_pending'')) ''chA''])"
  by (simp add: block_defs scenario_defs)

subsection \<open>Dispatch\<close>

text \<open>
  C2. The claim: the transition function is total, and an event the phase does not accept
  returns the state unchanged with no event, \<open>(\<bottom>, [])\<close> from the state \<open>\<bottom>\<close>. In the
  code no branch assigns \<open>iteration\<close> for such an event, and the last line of
  \<open>state_transition\<close> raises UnboundLocalError: from \<open>\<bottom>\<close> for every event but
  \<open>ActionInitMediator\<close>, and in the other two phases for the events they do not list.
\<close>

theorem state_transition_unassigned_iteration:
  "state_transition sha3 update_route st0 None sc =
     (case sc of
        ActionInitMediator our rs b from_route from_transfer \<Rightarrow>
          (case mediate_transfer st0 (new_MediatorState our rs b (hashlock from_transfer))
                  from_route from_transfer of
             Inl e \<Rightarrow> Inl e
           | Inr iteration \<Rightarrow> clear_if_finalized iteration)
      | _ \<Rightarrow> Inl UnboundLocalError) \<and>
   state_transition sha3 update_route st0 None (Block 11) = Inl UnboundLocalError \<and>
   state_transition sha3 update_route st0 (Some state_AB) (ReceiveBalanceProof ''chA'') =
     Inl UnboundLocalError \<and>
   state_transition sha3 update_route st0 (Some state_paid) (ActionRouteChange route_B) =
     Inl UnboundLocalError"
  by (simp add: state_transition_def state_AB_def state_paid_def new_MediatorState_def
      split: state_change.split sum.split)

subsection \<open>On-chain withdraw intake\<close>

lemma contractwithdraw_loop_None:
  "contractwithdraw_loop pairs ca = None \<longleftrightarrow>
     \<not> (\<exists>pair \<in> set pairs. channel_address (payer_route pair) = ca)"
  by (induction pairs) (auto split: option.splits)

text \<open>
  C8. The claim: when a pair's payer route is on the event's channel, its payer state is set
  and a result is returned; otherwise the event goes to \<open>secret_learned\<close> with
  \<open>payee_contract_withdraw\<close>. The second half holds. In the first case the loop breaks and
  the function returns a local that only the loop's \<open>else\<close> assigns: it raises
  UnboundLocalError, as in scenario 4 for a withdraw on the channel with A.
\<close>

theorem handle_contractwithdraw_matching_pair_raises:
  "handle_contractwithdraw sha3 s ca sec sender =
     (case m_secret s of
        None \<Rightarrow> Inl TypeError
      | Some known \<Rightarrow>
          if sha3 known \<noteq> m_hashlock s then Inl AssertionError
          else if \<exists>pair \<in> set (transfers_pair s). channel_address (payer_route pair) = ca
          then Inl UnboundLocalError
          else secret_learned s sec sender ''payee_contract_withdraw'') \<and>
   state_transition scenario_sha3 update_route st0 (Some state_paid)
       (ContractReceiveWithdraw ''chA'' ''S'' ''A'') = Inl UnboundLocalError"
proof -
  have "contractwithdraw_loop (transfers_pair state_paid) ''chA'' \<noteq> None"
    by (simp add: scenario_defs)
  then show ?thesis
    using contractwithdraw_loop_None [of "transfers_pair s" ca]
    by (auto simp: handle_contractwithdraw_def state_transition_def state_paid_def
        new_MediatorState_def scenario_sha3_def split: option.splits)
qed

subsection \<open>Secret propagation\<close>

lemma for_pairs_events:
  "for_pairs body xs = Inr (ys, evs) \<Longrightarrow>
   (\<And>x y e. x \<in> set xs \<Longrightarrow> body x = Inr (y, e) \<Longrightarrow> e = g x) \<Longrightarrow>
   evs = concat (map g xs)"
proof (induction xs arbitrary: ys evs)
  case Nil
  then show ?case by simp
next
  case (Cons x xs)
  then show ?case
    by (fastforce split: sum.splits prod.splits)
qed

lemma for_pairs_related:
  "for_pairs body xs = Inr (ys, evs) \<Longrightarrow>
   (\<And>x y e. x \<in> set xs \<Longrightarrow> body x = Inr (y, e) \<Longrightarrow> R x y) \<Longrightarrow>
   list_all2 R xs ys"
proof (induction xs arbitrary: ys evs)
  case Nil
  then show ?case by simp
next
  case (Cons x xs)
  then show ?case
    by (fastforce split: sum.splits prod.splits)
qed

lemma set_payee_state_loop_related:
  "set_payee_state_loop xs a n w = (ys, w') \<Longrightarrow>
   list_all2 (\<lambda>x y. \<exists>v. y = x\<lparr>payee_state := v\<rparr>) xs ys"
proof (induction xs arbitrary: ys w w')
  case Nil
  then show ?case by simp
next
  case (Cons x xs)
  have refl: "list_all2 (\<lambda>x y. \<exists>v. y = x\<lparr>payee_state := v\<rparr>) xs xs"
    by (rule list_all2_refl) (metis MediationPairState.surjective MediationPairState.update_convs(6))
  show ?case
  proof (cases "node_address (payee_route x) = a")
    case True
    with Cons.prems refl show ?thesis by auto
  next
    case False
    with Cons.prems Cons.IH show ?thesis
      apply (auto split: prod.splits)
      by (metis MediationPairState.surjective MediationPairState.update_convs(6))
  qed
qed

lemma revealsecret_pair_result:
  assumes "revealsecret_pair our p = Inr (p', e)"
  shows "e = (if reveal_due p
              then [SendRevealSecret (identifier (payer_transfer p)) (secret (payer_transfer p))
                      (node_address (payer_route p)) our]
              else [])"
    and "payee_transfer p' = payee_transfer p" and "payee_route p' = payee_route p"
  using assms
  by (auto simp: revealsecret_pair_def reveal_due_def transfer_state_in_def
      split: option.splits if_splits)

lemma balanceproof_pair_result:
  assumes "balanceproof_pair b p = Inr (p', e)"
  shows "e = balanceproof_events b p"
  using assms
  by (auto simp: balanceproof_pair_def balanceproof_events_def balanceproof_due_def
      transfer_state_in_def is_lock_valid_def Let_def split: option.splits if_splits)

lemma balanceproof_events_cong:
  "payee_transfer q = payee_transfer p \<Longrightarrow> payee_route q = payee_route p \<Longrightarrow>
   balanceproof_events b q = balanceproof_events b p"
  by (simp add: balanceproof_events_def balanceproof_due_def split: option.splits)

lemma map_related:
  "list_all2 R xs ys \<Longrightarrow> (\<And>x y. R x y \<Longrightarrow> f x = g y) \<Longrightarrow> map f xs = map g ys"
  by (induction rule: list_all2_induct) auto

lemma events_for_revealsecret_result:
  assumes "events_for_revealsecret s = Inr (evs, s')"
  shows "evs = concat (map (\<lambda>p. if reveal_due p
              then [SendRevealSecret (identifier (payer_transfer p)) (secret (payer_transfer p))
                      (node_address (payer_route p)) (our_address s)]
              else []) (rev (transfers_pair s)))"
    and "map (balanceproof_events b) (rev (transfers_pair s')) =
         map (balanceproof_events b) (rev (transfers_pair s))"
    and "block_number s' = block_number s"
proof -
  let ?g = "\<lambda>p. if reveal_due p
              then [SendRevealSecret (identifier (payer_transfer p)) (secret (payer_transfer p))
                      (node_address (payer_route p)) (our_address s)]
              else []"
  let ?R = "\<lambda>x y. payee_transfer y = payee_transfer x \<and> payee_route y = payee_route x"
  from assms obtain rpairs where
    fp: "for_pairs (revealsecret_pair (our_address s)) (rev (transfers_pair s)) = Inr (rpairs, evs)"
    and s': "s' = s\<lparr>transfers_pair := rev rpairs\<rparr>"
    by (auto simp: events_for_revealsecret_def split: sum.splits)
  have ev: "e = ?g x" if "revealsecret_pair (our_address s) x = Inr (y, e)" for x y e
    using revealsecret_pair_result(1) [OF that] .
  show "evs = concat (map ?g (rev (transfers_pair s)))"
    using for_pairs_events [OF fp, of ?g] ev by blast
  have rel: "?R x y" if "revealsecret_pair (our_address s) x = Inr (y, e)" for x y e
    using revealsecret_pair_result(2,3) [OF that] by simp
  have "list_all2 ?R (rev (transfers_pair s)) rpairs"
    using for_pairs_related [OF fp, of ?R] rel by blast
  then have "map (balanceproof_events b) (rev (transfers_pair s)) = map (balanceproof_events b) rpairs"
    by (rule map_related) (rule balanceproof_events_cong [symmetric], simp_all)
  then show "map (balanceproof_events b) (rev (transfers_pair s')) =
         map (balanceproof_events b) (rev (transfers_pair s))"
    using s' by simp
  show "block_number s' = block_number s" using s' by simp
qed

lemma events_for_balanceproof_result:
  assumes "events_for_balanceproof s = Inr (evs, s')"
  shows "evs = concat (map (balanceproof_events (block_number s)) (rev (transfers_pair s)))"
proof -
  from assms obtain rpairs where
    fp: "for_pairs (balanceproof_pair (block_number s)) (rev (transfers_pair s)) = Inr (rpairs, evs)"
    by (auto simp: events_for_balanceproof_def split: sum.splits)
  have "e = balanceproof_events (block_number s) x"
    if "balanceproof_pair (block_number s) x = Inr (y, e)" for x y e
    using balanceproof_pair_result [OF that] .
  then show ?thesis
    using for_pairs_events [OF fp, of "balanceproof_events (block_number s)"] by blast
qed

lemma reveal_events_after_update:
  "(let q = (if m_secret s = None then set_secret_pair sec p else p)\<lparr>payee_state := v\<rparr>
    in if reveal_due q
       then [SendRevealSecret (identifier (payer_transfer q)) (secret (payer_transfer q))
               (node_address (payer_route q)) (our_address s)]
       else []) = reveal_events s sec p"
  by (simp add: reveal_events_def reveal_due_def set_secret_pair_def Let_def
      split: option.splits)

lemma balanceproof_events_after_update:
  "balanceproof_events b ((if c then set_secret_pair sec p else p)\<lparr>payee_state := v\<rparr>) =
   balanceproof_events b p"
  by (simp add: balanceproof_events_def balanceproof_due_def set_secret_pair_def
      split: option.splits)

lemma secret_learned_events:
  assumes "secret_learned s sec sender nps = Inr it"
  shows "events it =
           concat (map (reveal_events s sec) (rev (transfers_pair s))) @
           concat (map (balanceproof_events (block_number s)) (rev (transfers_pair s)))"
proof -
  let ?f = "\<lambda>p. if m_secret s = None then set_secret_pair sec p else p"
  let ?g = "\<lambda>p. if reveal_due p
              then [SendRevealSecret (identifier (payer_transfer p)) (secret (payer_transfer p))
                      (node_address (payer_route p)) (our_address s)]
              else []"
  define s1 where "s1 = (if m_secret s = None then set_secret s sec else s)"
  have p1: "transfers_pair s1 = map ?f (transfers_pair s)"
    and b1: "block_number s1 = block_number s" and a1: "our_address s1 = our_address s"
    by (cases "m_secret s"; simp add: s1_def set_secret_def)+
  have "(case set_payee_state_and_check_reveal_order (transfers_pair s1) sender nps of
           Inl e \<Rightarrow> Inl e
         | Inr (wrong_order, pairs2) \<Rightarrow>
             (case events_for_revealsecret (s1\<lparr>transfers_pair := pairs2\<rparr>) of
                Inl e \<Rightarrow> Inl e
              | Inr (secret_reveal, s3) \<Rightarrow>
                  (case events_for_balanceproof s3 of
                     Inl e \<Rightarrow> Inl e
                   | Inr (balance_proof, s4) \<Rightarrow>
                       Inr (mk_Iteration (Some s4)
                              (wrong_order @ secret_reveal @ balance_proof))))) = Inr it"
    using assms unfolding secret_learned_def Let_def s1_def
    by (auto split: if_splits)
  then obtain wo pairs2 sr s3 bp s4 where
    sp: "set_payee_state_and_check_reveal_order (transfers_pair s1) sender nps = Inr (wo, pairs2)"
    and rv: "events_for_revealsecret (s1\<lparr>transfers_pair := pairs2\<rparr>) = Inr (sr, s3)"
    and bl: "events_for_balanceproof s3 = Inr (bp, s4)"
    and it: "it = mk_Iteration (Some s4) (wo @ sr @ bp)"
    by (auto split: sum.splits prod.splits)
  from sp obtain rpairs w where
    lp: "set_payee_state_loop (rev (transfers_pair s1)) sender nps False = (rpairs, w)"
    and wo: "wo = []" and pairs2: "pairs2 = rev rpairs"
    by (auto simp: set_payee_state_and_check_reveal_order_def split: if_splits prod.splits)
  have rel: "list_all2 (\<lambda>x y. \<exists>v. y = (?f x)\<lparr>payee_state := v\<rparr>) (rev (transfers_pair s)) rpairs"
    using set_payee_state_loop_related [OF lp] by (simp add: p1 rev_map list_all2_map1)
  have m1: "map (reveal_events s sec) (rev (transfers_pair s)) = map ?g rpairs"
  proof (rule map_related [OF rel])
    fix x y assume "\<exists>v. y = (?f x)\<lparr>payee_state := v\<rparr>"
    then obtain v where y: "y = (?f x)\<lparr>payee_state := v\<rparr>" ..
    show "reveal_events s sec x = ?g y"
      using reveal_events_after_update [where s = s and sec = sec and p = x and v = v] by (simp only: y Let_def)
  qed
  have m2: "map (balanceproof_events b) (rev (transfers_pair s)) =
            map (balanceproof_events b) rpairs" for b
  proof (rule map_related [OF rel])
    fix x y assume "\<exists>v. y = (?f x)\<lparr>payee_state := v\<rparr>"
    then obtain v where y: "y = (?f x)\<lparr>payee_state := v\<rparr>" ..
    show "balanceproof_events b x = balanceproof_events b y"
      using balanceproof_events_after_update [where b = b and c = "m_secret s = None" and sec = sec and p = x and v = v]
      by (simp only: y if_distrib [of "\<lambda>f. f x"] ) 
  qed
  have a2: "our_address (s1\<lparr>transfers_pair := pairs2\<rparr>) = our_address s"
    by (simp add: a1)
  have sr: "sr = concat (map ?g rpairs)"
    using events_for_revealsecret_result(1) [OF rv] unfolding a2 by (simp add: pairs2)
  have "map (balanceproof_events (block_number s3)) (rev (transfers_pair s3)) =
        map (balanceproof_events (block_number s3)) rpairs"
    using events_for_revealsecret_result(2) [OF rv, of "block_number s3"] by (simp add: pairs2)
  moreover have "block_number s3 = block_number s"
    using events_for_revealsecret_result(3) [OF rv] by (simp add: b1)
  ultimately have bp: "bp = concat (map (balanceproof_events (block_number s)) rpairs)"
    using events_for_balanceproof_result [OF bl] by simp
  show ?thesis
    by (simp add: it wo sr bp m1 m2 mk_Iteration_def)
qed

lemmas secret_defs =
  handle_secretreveal_def secret_learned_def set_secret_def set_secret_pair_def
  set_payee_state_and_check_reveal_order_def valid_payee_states_def
  events_for_revealsecret_def revealsecret_pair_def events_for_balanceproof_def
  balanceproof_pair_def transfer_state_in_def STATE_SECRET_KNOWN_def STATE_TRANSFER_PAYED_def
  is_lock_valid_def mk_Iteration_def

text \<open>
  C3. When a \<open>ReceiveSecretReveal\<close> whose secret hashes to the hashlock is processed and the
  handler returns, the event list is the events of the reveal walk followed by the events of
  the balance-proof walk, each over the pairs from tail to head: a \<open>SendRevealSecret\<close> to
  \<open>payer_route.node_address\<close> for every pair the reveal walk selects, then a
  \<open>SendBalanceProof\<close> to \<open>payee_route.node_address\<close> for every pair the balance-proof walk
  selects, which has \<open>block_number \<le> payee_transfer.expiration\<close>.
\<close>

theorem handle_secretreveal_events:
  assumes "sha3 sec = m_hashlock s"
    and "handle_secretreveal sha3 s sec sender = Inr it"
  shows "events it =
           concat (map (reveal_events s sec) (rev (transfers_pair s))) @
           concat (map (balanceproof_events (block_number s)) (rev (transfers_pair s)))"
  using assms secret_learned_events [of s sec sender "''payee_secret_revealed''" it]
  by (simp add: handle_secretreveal_def)

theorem handle_secretreveal_events_witness:
  "scenario_sha3 ''S'' = m_hashlock state_known \<and>
   (\<exists>it. handle_secretreveal scenario_sha3 state_known ''S'' ''B'' = Inr it \<and>
         events it = [SendRevealSecret 1 (Some ''S'') ''A'' ''N'', SendBalanceProof 1 ''B''])"
proof -
  have h: "scenario_sha3 ''S'' = m_hashlock state_known"
    by (simp add: scenario_defs pair_known_def state_known_def)
  obtain it where r: "handle_secretreveal scenario_sha3 state_known ''S'' ''B'' = Inr it"
    by (simp add: secret_defs scenario_defs pair_known_def state_known_def)
  have "events it = [SendRevealSecret 1 (Some ''S'') ''A'' ''N'', SendBalanceProof 1 ''B'']"
    using handle_secretreveal_events [OF h r]
    by (simp add: reveal_events_def reveal_due_def balanceproof_events_def balanceproof_due_def
        STATE_SECRET_KNOWN_def STATE_TRANSFER_PAYED_def scenario_defs pair_known_def state_known_def)
  with h r show ?thesis by blast
qed

text \<open>
  The claim as stated fails: it has the \<open>SendBalanceProof\<close> first, and it has the walks test
  and set the pair's \<open>payer_state\<close> and \<open>payee_state\<close>. For a pair whose payee transfer is
  recorded as having revealed, the reveal comes first and the pair's payer state stays
  pending; in the happy path after scenario 1 (the reveal of S by B) no event is emitted.
\<close>

theorem handle_secretreveal_counterexample:
  "handle_secretreveal scenario_sha3 state_known ''S'' ''B'' =
     Inr (mk_Iteration
            (Some (state_known\<lparr>m_secret := Some ''S'',
                     transfers_pair :=
                       [pair_known\<lparr>payer_transfer :=
                                     (locked_transfer 100 (Some ''payer_secret_revealed''))
                                       \<lparr>secret := Some ''S''\<rparr>,
                                   payee_transfer :=
                                     (locked_transfer 53 (Some ''payee_balance_proof''))
                                       \<lparr>secret := Some ''S''\<rparr>,
                                   payee_state := ''payee_secret_revealed''\<rparr>]\<rparr>))
            [SendRevealSecret 1 (Some ''S'') ''A'' ''N'', SendBalanceProof 1 ''B'']) \<and>
   payer_state pair_known = ''payer_pending'' \<and>
   handle_secretreveal scenario_sha3 state_readable ''S'' ''B'' =
     Inr (mk_Iteration
            (Some (state_readable\<lparr>m_secret := Some ''S'',
                     transfers_pair :=
                       [pair_readable\<lparr>payer_transfer :=
                                        (locked_transfer 100 (Some ''payer_pending''))
                                          \<lparr>secret := Some ''S''\<rparr>,
                                      payee_transfer :=
                                        (locked_transfer 53 (Some ''payee_pending''))
                                          \<lparr>secret := Some ''S''\<rparr>,
                                      payee_state := ''payee_secret_revealed''\<rparr>]\<rparr>))
            []) \<and>
   handle_secretreveal scenario_sha3 state_AB ''S'' ''B'' = Inl AttributeError"
  by (simp add: secret_defs scenario_defs pair_known_def state_known_def)

subsection \<open>Mediation\<close>

lemmas mediate_defs =
  mediate_transfer_def get_timeout_blocks_def TRANSIT_BLOCKS_def next_transfer_pair_def
  next_route.simps events_for_refund_transfer_def mediatedtransfer_def mk_Iteration_def Let_def

text \<open>
  C4. \<open>next_transfer_pair\<close>, when it finds a route, builds the payee transfer as a copy of
  the payer transfer (identifier, amount, token, target, hashlock, secret) with the expiration
  \<open>(timeout_blocks - payee_route.reveal_timeout) + block_number\<close>, and emits exactly one
  \<open>SendMediatedTransfer\<close>, which carries that transfer. In scenario 1 the timeout is
  \<open>min 50 (100 - 10) - 2 = 48\<close> blocks and the payee expiration is 53.
\<close>

theorem next_transfer_pair_payee_transfer:
  "(next_transfer_pair st0 pr pt rs tb b = Inr ((Some pair, evs), rs') \<longrightarrow>
      payer_route pair = pr \<and> payer_transfer pair = pt \<and>
      next_route rs tb (amount pt) = (Some (payee_route pair), rs') \<and>
      payee_transfer pair =
        pt\<lparr>expiration := (tb - reveal_timeout (payee_route pair)) + b, state := st0\<rparr> \<and>
      (\<exists>recipient. evs = [SendMediatedTransfer (payee_transfer pair) recipient])) \<and>
   get_timeout_blocks route_A (locked_transfer 100 st) 10 = Inr 48 \<and>
   (\<exists>recipient.
      next_transfer_pair st0 route_A (locked_transfer 100 st)
          (no_routes\<lparr>available_routes := [route_B]\<rparr>) 48 10 =
        Inr ((Some (new_MediationPairState route_A (locked_transfer 100 st)
                      route_B (locked_transfer 53 st0)),
              [SendMediatedTransfer (locked_transfer 53 st0) recipient]), no_routes))"
proof -
  have "payer_route pair = pr \<and> payer_transfer pair = pt \<and>
      next_route rs tb (amount pt) = (Some (payee_route pair), rs') \<and>
      payee_transfer pair =
        pt\<lparr>expiration := (tb - reveal_timeout (payee_route pair)) + b, state := st0\<rparr> \<and>
      (\<exists>recipient. evs = [SendMediatedTransfer (payee_transfer pair) recipient])"
    if "next_transfer_pair st0 pr pt rs tb b = Inr ((Some pair, evs), rs')"
    using that
    by (auto simp: next_transfer_pair_def Let_def new_MediationPairState_def mediatedtransfer_def
        split: if_splits prod.splits option.splits)
  moreover have "get_timeout_blocks route_A (locked_transfer 100 st) 10 = Inr 48"
    by (simp add: get_timeout_blocks_def TRANSIT_BLOCKS_def scenario_defs)
  moreover have "next_transfer_pair st0 route_A (locked_transfer 100 st)
          (no_routes\<lparr>available_routes := [route_B]\<rparr>) 48 10 =
        Inr ((Some (new_MediationPairState route_A (locked_transfer 100 st)
                      route_B (locked_transfer 53 st0)),
              [SendMediatedTransfer (locked_transfer 53 st0) ''A'']), no_routes)"
    by (simp add: mediate_defs scenario_defs)
  ultimately show ?thesis by blast
qed

theorem next_transfer_pair_payee_transfer_witness:
  "next_transfer_pair None route_A (locked_transfer 100 None)
       (no_routes\<lparr>available_routes := [route_B]\<rparr>) 48 10 =
     Inr ((Some pair_AB, [SendMediatedTransfer (locked_transfer 53 None) ''A'']), no_routes) \<and>
   payee_transfer pair_AB = (locked_transfer 100 None)\<lparr>expiration := (48 - 5) + 10\<rparr> \<and>
   expiration (payee_transfer pair_AB) = 53"
proof -
  have r: "next_transfer_pair None route_A (locked_transfer 100 None)
       (no_routes\<lparr>available_routes := [route_B]\<rparr>) 48 10 =
     Inr ((Some pair_AB, [SendMediatedTransfer (locked_transfer 53 None) ''A'']), no_routes)"
    by (simp add: mediate_defs scenario_defs)
  from next_transfer_pair_payee_transfer [of None route_A "locked_transfer 100 None"
      "no_routes\<lparr>available_routes := [route_B]\<rparr>" 48 10 pair_AB
      "[SendMediatedTransfer (locked_transfer 53 None) ''A'']" no_routes] r
  have "payee_transfer pair_AB =
          (locked_transfer 100 None)\<lparr>expiration := (48 - reveal_timeout (payee_route pair_AB)) + 10,
                                     state := None\<rparr>"
    by blast
  then show ?thesis using r by (simp add: scenario_defs)
qed

text \<open>
  The claim as stated has the expiration 93 (it leaves the settle timeout of 50 out of the
  minimum) and the recipient B. The init of scenario 1 gives the expiration 53, and the code
  passes \<open>payer_route.node_address\<close>, the node A, to \<open>mediatedtransfer\<close>.
\<close>

theorem next_transfer_pair_counterexample:
  "state_transition scenario_sha3 (\<lambda>s r. Inr s) None None
       (ActionInitMediator ''N'' (no_routes\<lparr>available_routes := [route_B]\<rparr>) 10 route_A
          (locked_transfer 100 None)) =
     Inr (mk_Iteration (Some state_AB) [SendMediatedTransfer (locked_transfer 53 None) ''A'']) \<and>
   node_address route_B = ''B'' \<and> node_address route_A = ''A'' \<and>
   expiration (payee_transfer pair_AB) = 53"
  by (simp add: state_transition_def clear_if_finalized_def all_finalized_def
      STATE_TRANSFER_FINAL_def mediate_defs scenario_defs)

text \<open>
  C7. \<open>events_for_refund_transfer\<close> emits exactly one \<open>SendRefundTransfer\<close> on the refund
  route, with the identifier, token, amount and hashlock of the transfer and the expiration
  \<open>(timeout_blocks - refund_route.reveal_timeout) + block_number\<close>, when
  \<open>timeout_blocks - refund_route.reveal_timeout > 0\<close>, and nothing otherwise. For the init of
  scenario 2 the timeout is \<open>min 50 (100 - 10) - 2 = 48\<close> blocks, the refund expiration is
  53, and \<open>mediate_transfer\<close> leaves \<open>transfers_pair\<close> empty.
\<close>

theorem events_for_refund_transfer_expiration:
  "events_for_refund_transfer refund_route refund_transfer timeout_blocks b =
     (if timeout_blocks - reveal_timeout refund_route > 0
      then [SendRefundTransfer (identifier refund_transfer) (token refund_transfer)
              (amount refund_transfer) (hashlock refund_transfer)
              ((timeout_blocks - reveal_timeout refund_route) + b)
              (node_address refund_route)]
      else []) \<and>
   get_timeout_blocks route_A (locked_transfer 100 st) 10 = Inr 48 \<and>
   mediate_transfer st0 (new_MediatorState ''N'' no_routes 10 ''H'') route_A
       (locked_transfer 100 st) =
     Inr (mk_Iteration (Some (new_MediatorState ''N'' no_routes 10 ''H''))
            [SendRefundTransfer 1 ''tok'' 10 ''H'' 53 ''A'']) \<and>
   transfers_pair (new_MediatorState ''N'' no_routes 10 ''H'') = []"
  by (simp add: mediate_defs scenario_defs)

text \<open>
  The claim as stated has the refund expiration 93, which leaves the settle timeout of 50
  out of the minimum.
\<close>

theorem events_for_refund_transfer_counterexample:
  "state_transition scenario_sha3 (\<lambda>s r. Inr s) None None
       (ActionInitMediator ''N'' no_routes 10 route_A (locked_transfer 100 None)) =
     Inr (mk_Iteration None [SendRefundTransfer 1 ''tok'' 10 ''H'' 53 ''A'']) \<and>
   mediate_transfer None (new_MediatorState ''N'' no_routes 10 ''H'') route_A
       (locked_transfer 100 None) \<noteq>
     Inr (mk_Iteration (Some (new_MediatorState ''N'' no_routes 10 ''H''))
            [SendRefundTransfer 1 ''tok'' 10 ''H'' 93 ''A''])"
  by (simp add: state_transition_def clear_if_finalized_def all_finalized_def
      mediate_defs scenario_defs)

text \<open>
  C10. In scenario 3 \<open>mediate_transfer\<close> emits nothing and appends no pair: it returns the
  initialized state with the rejected route moved from \<open>available_routes\<close> to
  \<open>ignored_routes\<close>. That state has no pair, so every pair of it is final, and
  \<open>state_transition\<close> returns \<open>(\<bottom>, [])\<close>. The finalizer replaces the state with \<open>\<bottom>\<close>
  exactly when every pair is in \<open>STATE_TRANSFER_FINAL\<close> on both sides.
\<close>

theorem mediate_transfer_silent_then_cleared:
  "mediate_transfer st0 (new_MediatorState ''N'' (no_routes\<lparr>available_routes := [route_B]\<rparr>) 10 ''H'')
       route_A (locked_transfer 15 st) =
     Inr (mk_Iteration
            (Some (new_MediatorState ''N'' (no_routes\<lparr>ignored_routes := [route_B]\<rparr>) 10 ''H''))
            []) \<and>
   state_transition sha3 update_route st0 None
       (ActionInitMediator ''N'' (no_routes\<lparr>available_routes := [route_B]\<rparr>) 10 route_A
          (locked_transfer 15 st)) =
     Inr (mk_Iteration None []) \<and>
   clear_if_finalized (mk_Iteration (Some s) evs) =
     Inr (mk_Iteration
            (if \<forall>pair \<in> set (transfers_pair s).
                  payee_state pair \<in> set STATE_TRANSFER_FINAL \<and>
                  payer_state pair \<in> set STATE_TRANSFER_FINAL
             then None else Some s)
            evs)"
  by (simp add: state_transition_def clear_if_finalized_def all_finalized_def list_all_iff
      mediate_defs scenario_defs)

theorem mediate_transfer_silent_then_cleared_witness:
  "clear_if_finalized (mk_Iteration (Some state_AB) []) = Inr (mk_Iteration (Some state_AB) []) \<and>
   clear_if_finalized (mk_Iteration (Some (new_MediatorState ''N'' no_routes 10 ''H'')) []) =
     Inr (mk_Iteration None []) \<and>
   clear_if_finalized
       (mk_Iteration
          (Some (state_AB\<lparr>transfers_pair := [pair_AB\<lparr>payee_state := ''payee_balance_proof'',
                                                     payer_state := ''payer_balance_proof''\<rparr>]\<rparr>)) []) =
     Inr (mk_Iteration None [])"
  using mediate_transfer_silent_then_cleared [of None None "\<lambda>x. x" "\<lambda>s r. Inr s" state_AB "[]"]
    mediate_transfer_silent_then_cleared [of None None "\<lambda>x. x" "\<lambda>s r. Inr s"
      "new_MediatorState ''N'' no_routes 10 ''H''" "[]"]
    mediate_transfer_silent_then_cleared [of None None "\<lambda>x. x" "\<lambda>s r. Inr s"
      "state_AB\<lparr>transfers_pair := [pair_AB\<lparr>payee_state := ''payee_balance_proof'',
                                               payer_state := ''payer_balance_proof''\<rparr>]\<rparr>" "[]"]
  by (simp add: STATE_TRANSFER_FINAL_def scenario_defs)

text \<open>
  The claim as stated has the transition return the initialized state, unchanged.
\<close>

theorem mediate_transfer_silent_counterexample:
  "state_transition scenario_sha3 (\<lambda>s r. Inr s) None None
       (ActionInitMediator ''N'' (no_routes\<lparr>available_routes := [route_B]\<rparr>) 10 route_A
          (locked_transfer 15 None)) =
     Inr (mk_Iteration None []) \<and>
   new_MediatorState ''N'' (no_routes\<lparr>ignored_routes := [route_B]\<rparr>) 10 ''H'' \<noteq>
     new_MediatorState ''N'' (no_routes\<lparr>available_routes := [route_B]\<rparr>) 10 ''H''"
  by (simp add: state_transition_def clear_if_finalized_def all_finalized_def
      mediate_defs scenario_defs)

subsection \<open>The pairs stay ordered by expiration\<close>






























end
